theory Spec2Isabelle
  imports Main "HOL-Library.Sublist"
begin

section \<open>The world the script runs in\<close>

text \<open>
  \<^verbatim>\<open>extract.py\<close> is an orchestration script: it tests paths, changes the working
  directory, runs shell commands and moves a directory tree. Its state is the file system
  and the process, so the model threads an explicit \<open>world\<close> through every function and
  returns it together with the result. An exception is a value \<open>Inl e\<close>; the world
  returned with it is the world at the \<^verbatim>\<open>raise\<close>.

  A path is the list of its components below the root (every path the script builds is
  absolute: \<^verbatim>\<open>PROJECT_ROOT\<close> comes from \<^verbatim>\<open>os.path.abspath\<close> and \<^verbatim>\<open>TEMP_DIR\<close> from
  \<^verbatim>\<open>tempfile.mkdtemp\<close>), so \<^verbatim>\<open>os.path.join(a, "x", "y")\<close> is \<open>a @ [''x'', ''y'']\<close> and
  \<^verbatim>\<open>os.path.dirname\<close> is \<open>butlast\<close>. The file system is a tree of regular files,
  named pipes and directories; symbolic links, permissions and ownership are not part of
  it, so every entry can be read and deleted.
\<close>

type_synonym path = "string list"

datatype node = File string | Fifo | Dir "(string \<times> node) list"

definition path_str :: "path \<Rightarrow> string" where
  "path_str p = (if p = [] then ''/'' else concat (map (\<lambda>c. CHR ''/'' # c) p))"

fun child :: "node \<Rightarrow> string \<Rightarrow> node option" where
  "child (Dir es) c = map_of es c"
| "child _ c = None"

fun lookup :: "node \<Rightarrow> path \<Rightarrow> node option" where
  "lookup n [] = Some n"
| "lookup n (c # cs) = (case child n c of None \<Rightarrow> None | Some m \<Rightarrow> lookup m cs)"

definition exists :: "node \<Rightarrow> path \<Rightarrow> bool" where
  "exists t p = (case lookup t p of None \<Rightarrow> False | Some _ \<Rightarrow> True)"

definition isdir :: "node \<Rightarrow> path \<Rightarrow> bool" where
  "isdir t p = (case lookup t p of Some (Dir _) \<Rightarrow> True | _ \<Rightarrow> False)"

definition isfile :: "node \<Rightarrow> path \<Rightarrow> bool" where
  "isfile t p = (case lookup t p of Some (File _) \<Rightarrow> True | _ \<Rightarrow> False)"

text \<open>Deleting the entry at a path, with everything below it. The root stays.\<close>

fun remove :: "path \<Rightarrow> node \<Rightarrow> node" where
  "remove [] n = n"
| "remove [c] n =
     (case n of Dir es \<Rightarrow> Dir (filter (\<lambda>e. fst e \<noteq> c) es)
      | _ \<Rightarrow> n)"
| "remove (c # cs) n =
     (case n of
        Dir es \<Rightarrow> Dir (map (\<lambda>e. if fst e = c then (c, remove cs (snd e)) else e) es)
      | _ \<Rightarrow> n)"

text \<open>Storing a node at a path whose parent directory exists (nothing happens otherwise).\<close>

fun put :: "path \<Rightarrow> node \<Rightarrow> node \<Rightarrow> node" where
  "put [] new n = new"
| "put [c] new n =
     (case n of Dir es \<Rightarrow> Dir ((c, new) # filter (\<lambda>e. fst e \<noteq> c) es)
      | _ \<Rightarrow> n)"
| "put (c # cs) new n =
     (case n of
        Dir es \<Rightarrow> Dir (map (\<lambda>e. if fst e = c then (c, put cs new (snd e)) else e) es)
      | _ \<Rightarrow> n)"

text \<open>A chain of fresh, nested, empty directories, as \<^verbatim>\<open>os.makedirs\<close> creates.\<close>

fun fresh_dirs :: "path \<Rightarrow> node" where
  "fresh_dirs [] = Dir []"
| "fresh_dirs (c # cs) = Dir [(c, fresh_dirs cs)]"

datatype error =
    MissingPrerequisite path
  | IOError string
  | OSError path
  | ShutilError string
  | SpecialFileError string
  | FetchError string
  | ZipError string

text \<open>
  \<^verbatim>\<open>os.makedirs(p)\<close>: creates the missing ancestors and the leaf; \<^verbatim>\<open>OSError\<close> when the
  leaf exists or an ancestor is not a directory. It looks for the first missing ancestor
  before it creates anything, so a failure leaves the file system as it was.
\<close>

fun makedirs_in :: "path \<Rightarrow> path \<Rightarrow> node \<Rightarrow> error + node" where
  "makedirs_in full [] n = Inl (OSError full)"
| "makedirs_in full (c # cs) (Dir es) =
     (case map_of es c of
        None \<Rightarrow> Inr (Dir ((c, fresh_dirs cs) # es))
      | Some m \<Rightarrow>
          (case makedirs_in full cs m of
             Inl e \<Rightarrow> Inl e
           | Inr m' \<Rightarrow> Inr (Dir ((c, m') # filter (\<lambda>e. fst e \<noteq> c) es))))"
| "makedirs_in full (c # cs) n = Inl (OSError full)"

definition makedirs :: "path \<Rightarrow> node \<Rightarrow> error + node" where
  "makedirs p t = makedirs_in p p t"

datatype level = DEBUG | INFO | ERROR

record world =
  files :: node
  cwd :: path
  calls :: "(string \<times> path) list"
  fetched :: "string list"
  logged :: "(level \<times> string) list"

text \<open>
  What the script cannot see into is a parameter: the module constants computed at import
  time, the effect of a shell command on the file system (given the command line and the
  working directory it runs in), the network (the body behind a URL, or none when the
  download raises), the archive reader (the bytes of a member of an archive, or none when
  the archive cannot be read or has no such member), whether two paths are on different
  devices, the ids of the process, and \<^verbatim>\<open>repr\<close> on strings.
\<close>

record env =
  PROJECT_ROOT :: path
  TEMP_DIR :: path
  shell :: "string \<Rightarrow> path \<Rightarrow> node \<Rightarrow> node"
  urlopen :: "string \<Rightarrow> string option"
  zip_member :: "string \<Rightarrow> string \<Rightarrow> string option"
  xdev :: "path \<Rightarrow> path \<Rightarrow> bool"
  geteuid :: nat
  getegid :: nat
  repr :: "string \<Rightarrow> string"

definition EXTRACTED_ROOT :: "env \<Rightarrow> path" where
  "EXTRACTED_ROOT env = PROJECT_ROOT env @ [''extracted_root'']"

definition LOG :: "level \<Rightarrow> string \<Rightarrow> world \<Rightarrow> world" where
  "LOG lvl msg w = w\<lparr>logged := logged w @ [(lvl, msg)]\<rparr>"

text \<open>
  \<^verbatim>\<open>subprocess.call(cmd, shell=True)\<close>: the command runs in the current directory and
  changes the file system; the exit status is returned and the script drops it. A child
  process cannot change the working directory of its parent. The trace \<open>calls\<close> records
  every invocation.
\<close>

definition call :: "env \<Rightarrow> string \<Rightarrow> world \<Rightarrow> world" where
  "call env cmd w =
     w\<lparr>files := shell env cmd (cwd w) (files w), calls := calls w @ [(cmd, cwd w)]\<rparr>"

text \<open>\<^verbatim>\<open>os.chdir(p)\<close> raises \<^verbatim>\<open>OSError\<close> unless \<open>p\<close> is a directory.\<close>

definition chdir :: "path \<Rightarrow> world \<Rightarrow> error + world" where
  "chdir p w = (if isdir (files w) p then Inr (w\<lparr>cwd := p\<rparr>) else Inl (OSError p))"

text \<open>
  A library call that can fail after it has changed the file system returns the error it
  raised, if any, together with the file system it leaves behind.

  \<^verbatim>\<open>shutil.rmtree(p)\<close> (errors not ignored) raises \<^verbatim>\<open>OSError\<close> at once unless \<open>p\<close> is a
  directory. It deletes the entries and then the directory; the root directory itself
  cannot be deleted, so on the root it raises after it has emptied it.
\<close>

definition rmtree :: "path \<Rightarrow> node \<Rightarrow> error option \<times> node" where
  "rmtree p t =
     (if \<not> isdir t p then (Some (OSError p), t)
      else if p = [] then (Some (OSError p), Dir [])
      else (None, remove p t))"

text \<open>\<^verbatim>\<open>"%d" % n\<close> for a natural number; \<open>digit\<close> is only applied below ten.\<close>

definition digit :: "nat \<Rightarrow> char" where
  "digit d = ''0123456789'' ! d"

fun dec :: "nat \<Rightarrow> string" where
  "dec n = (if n < 10 then [digit n] else dec (n div 10) @ [digit (n mod 10)])"

declare dec.simps [simp del]

text \<open>\<^verbatim>\<open>sep.join(xs)\<close>.\<close>

fun str_join :: "string \<Rightarrow> string list \<Rightarrow> string" where
  "str_join sep [] = []"
| "str_join sep [x] = x"
| "str_join sep (x # xs) = x @ sep @ str_join sep xs"


section \<open>The library calls of the relocation step\<close>

text \<open>
  \<^verbatim>\<open>os.rename(src, dst)\<close> on one device: the source must exist and the parent of the
  destination must be a directory; a directory replaces only an empty directory and
  cannot go below itself, a file or named pipe replaces anything but a directory.
  Renaming a path to itself does nothing. Between devices it fails. A rename happens as
  a whole or not at all.
\<close>

definition rename :: "env \<Rightarrow> path \<Rightarrow> path \<Rightarrow> node \<Rightarrow> error + node" where
  "rename env src dst t =
     (case lookup t src of
        None \<Rightarrow> Inl (OSError src)
      | Some n \<Rightarrow>
          if src = [] \<or> dst = [] then Inl (OSError dst)
          else if \<not> isdir t (butlast dst) then Inl (OSError dst)
          else if src = dst then Inr t
          else if xdev env src dst then Inl (OSError dst)
          else if prefix src dst then Inl (OSError dst)
          else
            (case n of
               Dir es \<Rightarrow>
                 (case lookup t dst of
                    None \<Rightarrow> Inr (put dst n (remove src t))
                  | Some (Dir ds) \<Rightarrow>
                      (if ds = [] then Inr (put dst n (remove src t))
                       else Inl (OSError dst))
                  | Some _ \<Rightarrow> Inl (OSError dst))
             | _ \<Rightarrow>
                 (if isdir t dst then Inl (OSError dst)
                  else Inr (put dst n (remove src t)))))"

text \<open>
  \<^verbatim>\<open>shutil.copytree(src, dst, symlinks=True)\<close>: lists \<open>src\<close>, creates \<open>dst\<close> with
  \<^verbatim>\<open>os.makedirs\<close> (so \<open>dst\<close> must not exist) and copies the entries one by one,
  directories recursively. An entry that cannot be copied (a named pipe: \<^verbatim>\<open>copy2\<close> raises
  \<^verbatim>\<open>SpecialFileError\<close>) is noted and skipped; after the last entry \<^verbatim>\<open>shutil.Error\<close> is
  raised when anything was noted, and the copy made so far stays where it is.
\<close>

fun copied :: "node \<Rightarrow> node"
  and copied_entries :: "(string \<times> node) list \<Rightarrow> (string \<times> node) list" where
  "copied (File s) = File s"
| "copied Fifo = Fifo"
| "copied (Dir es) = Dir (copied_entries es)"
| "copied_entries [] = []"
| "copied_entries ((c, n) # es) =
     (case n of Fifo \<Rightarrow> copied_entries es | _ \<Rightarrow> (c, copied n) # copied_entries es)"

fun has_fifo :: "node \<Rightarrow> bool"
  and has_fifo_entries :: "(string \<times> node) list \<Rightarrow> bool" where
  "has_fifo (File s) = False"
| "has_fifo Fifo = True"
| "has_fifo (Dir es) = has_fifo_entries es"
| "has_fifo_entries [] = False"
| "has_fifo_entries ((c, n) # es) = (has_fifo n \<or> has_fifo_entries es)"

definition copytree :: "path \<Rightarrow> path \<Rightarrow> node \<Rightarrow> error option \<times> node" where
  "copytree src dst t =
     (case lookup t src of
        Some (Dir es) \<Rightarrow>
          (case makedirs dst t of
             Inl e \<Rightarrow> (Some e, t)
           | Inr t1 \<Rightarrow>
               (if has_fifo_entries es then Some (ShutilError (path_str src)) else None,
                put dst (Dir (copied_entries es)) t1))
      | _ \<Rightarrow> (Some (OSError src), t))"

text \<open>
  \<^verbatim>\<open>shutil.copy2(src, dst)\<close>: into \<open>dst\<close> when that is a directory; \<^verbatim>\<open>SpecialFileError\<close> for
  a named pipe, \<^verbatim>\<open>IOError\<close> when the source cannot be opened as a file or the target
  cannot be opened for writing. The tests come before the first write.
\<close>

definition copy2 :: "path \<Rightarrow> path \<Rightarrow> node \<Rightarrow> error + node" where
  "copy2 src dst t =
     (let dst1 = (if isdir t dst then dst @ (if src = [] then [] else [last src]) else dst)
      in case lookup t src of
           Some (File c) \<Rightarrow>
             (if src = dst1 then Inl (ShutilError (path_str src))
              else if dst1 \<noteq> [] \<and> isdir t (butlast dst1) \<and> \<not> isdir t dst1
                then Inr (put dst1 (File c) t)
              else Inl (IOError (path_str dst1)))
         | Some Fifo \<Rightarrow> Inl (SpecialFileError (path_str src))
         | _ \<Rightarrow> Inl (IOError (path_str src)))"

text \<open>\<^verbatim>\<open>os.unlink(p)\<close>: removes an entry that is not a directory.\<close>

definition unlink :: "path \<Rightarrow> node \<Rightarrow> error + node" where
  "unlink p t =
     (if exists t p \<and> \<not> isdir t p \<and> p \<noteq> [] then Inr (remove p t) else Inl (OSError p))"

text \<open>
  \<^verbatim>\<open>shutil.move(src, dst)\<close> of Python 2.7. Into an existing directory \<open>dst\<close> the source
  goes below it under its own name, unless source and destination are the same file
  (then the rename does nothing). The move is a rename; when the rename fails, a
  directory is copied and the source deleted, unless the destination lies inside the
  source. When the copy raises, the source is not deleted and what has been copied
  stays: a failed move can leave a new, partly filled destination. Without links, two
  paths are the same file when they are equal and exist.
\<close>

definition samefile :: "node \<Rightarrow> path \<Rightarrow> path \<Rightarrow> bool" where
  "samefile t src dst = (exists t src \<and> exists t dst \<and> src = dst)"

definition destinsrc :: "path \<Rightarrow> path \<Rightarrow> bool" where
  "destinsrc src dst = prefix src dst"

definition move_to ::
    "env \<Rightarrow> path \<Rightarrow> path \<Rightarrow> path \<Rightarrow> node \<Rightarrow> error option \<times> node" where
  "move_to env src dst real_dst t =
     (case rename env src real_dst t of
        Inr t1 \<Rightarrow> (None, t1)
      | Inl _ \<Rightarrow>
          if isdir t src then
            (if destinsrc src dst then (Some (ShutilError (path_str src)), t)
             else
               (case copytree src real_dst t of
                  (Some e, t1) \<Rightarrow> (Some e, t1)
                | (None, t1) \<Rightarrow> rmtree src t1))
          else
            (case copy2 src real_dst t of
               Inl e \<Rightarrow> (Some e, t)
             | Inr t1 \<Rightarrow>
                 (case unlink src t1 of
                    Inl e \<Rightarrow> (Some e, t1)
                  | Inr t2 \<Rightarrow> (None, t2))))"

definition shutil_move :: "env \<Rightarrow> path \<Rightarrow> path \<Rightarrow> node \<Rightarrow> error option \<times> node" where
  "shutil_move env src dst t =
     (if isdir t dst then
        (if samefile t src dst then
           (case rename env src dst t of
              Inl e \<Rightarrow> (Some e, t)
            | Inr t1 \<Rightarrow> (None, t1))
         else
           (let real_dst = dst @ (if src = [] then [] else [last src])
            in if exists t real_dst then (Some (ShutilError (path_str real_dst)), t)
               else move_to env src dst real_dst t))
      else move_to env src dst dst t)"

section \<open>Prerequisites\<close>

text \<open>
  \<^verbatim>\<open>prereq_hmx\<close> (lines 69 to 99). The download is \<^verbatim>\<open>urllib2.urlopen(url).read()\<close>,
  written to \<^verbatim>\<open>TEMP_DIR/hdpvr.zip\<close>; the member \<^verbatim>\<open>hdpvr.hmx\<close> of the archive is then
  written below the destination directory.
\<close>

definition hmx_filename :: "env \<Rightarrow> path" where
  "hmx_filename env = PROJECT_ROOT env @ [''original_firmware'', ''hdpvr.hmx'']"

definition default_source_url :: string where
  "default_source_url = ''http://www.humax-digital.de/products/hdpvr.zip''"

definition write_file :: "path \<Rightarrow> string \<Rightarrow> node \<Rightarrow> error + node" where
  "write_file p content t =
     (if p \<noteq> [] \<and> isdir t (butlast p) \<and> \<not> isdir t p then Inr (put p (File content) t)
      else Inl (IOError (path_str p)))"

definition zip_extract :: "env \<Rightarrow> path \<Rightarrow> string \<Rightarrow> path \<Rightarrow> node \<Rightarrow> error + node" where
  "zip_extract env archive member dest_dir t =
     (case lookup t archive of
        Some (File bytes) \<Rightarrow>
          (case zip_member env bytes member of
             None \<Rightarrow> Inl (ZipError member)
           | Some content \<Rightarrow> write_file (dest_dir @ [member]) content t)
      | _ \<Rightarrow> Inl (IOError (path_str archive)))"

definition prereq_hmx :: "env \<Rightarrow> string \<Rightarrow> world \<Rightarrow> (error + path) \<times> world" where
  "prereq_hmx env source_url w0 =
     (let filename = hmx_filename env;
          w1 = LOG INFO (''HMX: '' @ path_str filename) w0
      in if isfile (files w1) filename then (Inr filename, LOG DEBUG ''[HMX] existing'' w1)
         else
           (let dest_dir = butlast filename;
                zip_source = TEMP_DIR env @ [''hdpvr.zip''];
                made =
                  (if \<not> isdir (files w1) dest_dir then
                     (let w2 = LOG DEBUG (''creating path: '' @ path_str dest_dir) w1
                      in case makedirs dest_dir (files w2) of
                           Inl e \<Rightarrow> (Inl e, w2)
                         | Inr t \<Rightarrow> (Inr (), w2\<lparr>files := t\<rparr>))
                   else (Inr (), w1))
            in case made of
                 (Inl e, w2) \<Rightarrow> (Inl e, w2)
               | (Inr _, w2) \<Rightarrow>
                   (let w3 = w2\<lparr>fetched := fetched w2 @ [source_url]\<rparr>
                    in case urlopen env source_url of
                         None \<Rightarrow> (Inl (FetchError source_url), w3)
                       | Some body \<Rightarrow>
                           (case write_file zip_source body (files w3) of
                              Inl e \<Rightarrow> (Inl e, w3)
                            | Inr t4 \<Rightarrow>
                                (let w4 = w3\<lparr>files := t4\<rparr>
                                 in case zip_extract env zip_source ''hdpvr.hmx'' dest_dir
                                           (files w4) of
                                      Inl e \<Rightarrow> (Inl e, w4)
                                    | Inr t5 \<Rightarrow>
                                        (let w5 = w4\<lparr>files := t5\<rparr>
                                         in if isfile (files w5) filename
                                            then (Inr filename, LOG DEBUG ''[HMX] fetched'' w5)
                                            else (Inl (MissingPrerequisite filename), w5)))))))"

text \<open>\<^verbatim>\<open>prereq_humidify\<close> (lines 101 to 119).\<close>

definition humidify_filename :: "env \<Rightarrow> path" where
  "humidify_filename env = PROJECT_ROOT env @ [''bin'', ''humidify-linux-i386'']"

definition source_urls :: "string list" where
  "source_urls =
     [''http://hummy.tv/forum/threads/humidify-hdf-file-utility.235/'',
      ''http://www20.zippyshare.com/v/27034196/file.html'']"

definition prereq_humidify :: "env \<Rightarrow> world \<Rightarrow> (error + path) \<times> world" where
  "prereq_humidify env w0 =
     (let filename = humidify_filename env;
          w1 = LOG INFO (''HUMIDIFY: '' @ path_str filename) w0
      in if isfile (files w1) filename then (Inr filename, LOG DEBUG ''existing'' w1)
         else
           (let w2 = LOG INFO ''Please visit following URLs to retrieve humidify tool:'' w1;
                w3 = LOG INFO (str_join '', '' source_urls) w2
            in (Inl (MissingPrerequisite filename), w3)))"

text \<open>
  \<^verbatim>\<open>prereq_unsquashfs\<close> (lines 121 to 159). The loop over the three commands changes
  into each command's directory and runs it; \<^verbatim>\<open>os.chdir\<close> raises when the directory is
  not there, and nothing catches that.
\<close>

definition unsquashfs_filename :: "env \<Rightarrow> path" where
  "unsquashfs_filename env =
     PROJECT_ROOT env @
       [''firmware-mod-kit-read-only'', ''trunk'', ''src'', ''squashfs-3.0'', ''unsquashfs'']"

definition commands :: "env \<Rightarrow> (string \<times> path) list" where
  "commands env =
     [(''svn checkout http://firmware-mod-kit.googlecode.com/svn/ firmware-mod-kit-read-only'',
       PROJECT_ROOT env),
      (''./configure'', PROJECT_ROOT env @ [''firmware-mod-kit-read-only'', ''trunk'', ''src'']),
      (''make'', PROJECT_ROOT env @ [''firmware-mod-kit-read-only'', ''trunk'', ''src''])]"

fun run_commands :: "env \<Rightarrow> (string \<times> path) list \<Rightarrow> world \<Rightarrow> (error + unit) \<times> world" where
  "run_commands env [] w = (Inr (), w)"
| "run_commands env ((cmd, pwd) # rest) w =
     (case chdir pwd w of
        Inl e \<Rightarrow> (Inl e, w)
      | Inr w1 \<Rightarrow> run_commands env rest (call env cmd w1))"

definition prereq_unsquashfs :: "env \<Rightarrow> world \<Rightarrow> (error + path) \<times> world" where
  "prereq_unsquashfs env w0 =
     (let filename = unsquashfs_filename env;
          w1 = LOG INFO (''UNSQUASHFS: '' @ path_str filename) w0
      in if isfile (files w1) filename then (Inr filename, LOG DEBUG ''existing'' w1)
         else
           (let old_cwd = cwd w1
            in case run_commands env (commands env) w1 of
                 (Inl e, w2) \<Rightarrow> (Inl e, w2)
               | (Inr _, w2) \<Rightarrow>
                   (case chdir old_cwd w2 of
                      Inl e \<Rightarrow> (Inl e, w2)
                    | Inr w3 \<Rightarrow>
                        if isfile (files w3) filename
                        then (Inr filename, LOG DEBUG ''created'' w3)
                        else (Inl (MissingPrerequisite filename), w3))))"

section \<open>The extraction pipeline\<close>

text \<open>
  \<^verbatim>\<open>extract\<close> (lines 161 to 219), here \<open>extract_rootfs\<close> since \<open>extract\<close> is a
  reserved word, cut at its own \<^verbatim>\<open>STEP\<close> markers: each step ends by running the next
  one. The three tool paths are only ever formatted into command lines.
\<close>

definition raw_filename :: "env \<Rightarrow> path" where
  "raw_filename env = TEMP_DIR env @ [''3.hdfbin-3-700000.raw'']"

definition squashfs_root :: "env \<Rightarrow> path" where
  "squashfs_root env = TEMP_DIR env @ [''squashfs-root'']"

definition unpack_cmd :: "string \<Rightarrow> string \<Rightarrow> string" where
  "unpack_cmd humidify hmx_file = humidify @ '' -x '' @ hmx_file"

definition decompress_cmd :: "env \<Rightarrow> string \<Rightarrow> string" where
  "decompress_cmd env unsquashfs =
     ''sudo '' @ unsquashfs @ '' -n '' @ path_str (raw_filename env)"

definition chown_cmd :: "env \<Rightarrow> string" where
  "chown_cmd env =
     ''sudo chown '' @ dec (geteuid env) @ '':'' @ dec (getegid env) @ '' -R '' @
       path_str (squashfs_root env)"

definition extract_step4 :: "env \<Rightarrow> path \<Rightarrow> world \<Rightarrow> (error + path) \<times> world" where
  "extract_step4 env extracted_root w0 =
     (let w1 = LOG INFO ''STEP 4: move tree'' w0;
          w2 = LOG DEBUG ('' '' @ path_str (squashfs_root env) @ '' -> '' @
                            path_str extracted_root) w1
      in case shutil_move env (squashfs_root env) extracted_root (files w2) of
           (Some e, t) \<Rightarrow> (Inl e, w2\<lparr>files := t\<rparr>)
         | (None, t) \<Rightarrow>
             (let w3 = w2\<lparr>files := t\<rparr>
              in if \<not> isdir (files w3) extracted_root
                 then (Inl (MissingPrerequisite extracted_root), w3)
                 else (Inr extracted_root, w3)))"

definition extract_step3 :: "env \<Rightarrow> path \<Rightarrow> world \<Rightarrow> (error + path) \<times> world" where
  "extract_step3 env extracted_root w0 =
     (let w1 = LOG INFO ''STEP 3: [sudo] chown'' w0;
          w2 = call env (chown_cmd env) w1
      in extract_step4 env extracted_root w2)"

definition extract_step2 ::
    "env \<Rightarrow> string \<Rightarrow> path \<Rightarrow> world \<Rightarrow> (error + path) \<times> world" where
  "extract_step2 env unsquashfs extracted_root w0 =
     (let w1 = LOG INFO ''STEP 2: [sudo] unsquashfs'' w0
      in case chdir (TEMP_DIR env) w1 of
           Inl e \<Rightarrow> (Inl e, w1)
         | Inr w2 \<Rightarrow>
             (let w3 = call env (decompress_cmd env unsquashfs) w2
              in if \<not> isdir (files w3) (squashfs_root env)
                 then (Inl (MissingPrerequisite (squashfs_root env)), w3)
                 else extract_step3 env extracted_root w3))"

definition extract_step1 ::
    "env \<Rightarrow> string \<Rightarrow> string \<Rightarrow> string \<Rightarrow> path \<Rightarrow> world \<Rightarrow> (error + path) \<times> world" where
  "extract_step1 env hmx_file unsquashfs humidify extracted_root w0 =
     (let cmd = unpack_cmd humidify hmx_file;
          w1 = LOG INFO (''STEP 1: Extract hmx '' @ repr env hmx_file) w0;
          w2 = LOG DEBUG ('' cmd     : '' @ cmd) w1;
          w3 = LOG DEBUG ('' expected: '' @ path_str (raw_filename env)) w2
      in if \<not> isfile (files w3) (raw_filename env) then
           (case chdir (TEMP_DIR env) w3 of
              Inl e \<Rightarrow> (Inl e, w3)
            | Inr w4 \<Rightarrow>
                (let w5 = call env cmd w4
                 in if \<not> isfile (files w5) (raw_filename env)
                    then (Inl (MissingPrerequisite (raw_filename env)), w5)
                    else extract_step2 env unsquashfs extracted_root w5))
         else extract_step2 env unsquashfs extracted_root (LOG DEBUG ''skipped'' w3))"

definition extract_rootfs ::
    "env \<Rightarrow> string \<Rightarrow> string \<Rightarrow> string \<Rightarrow> path \<Rightarrow> bool \<Rightarrow> world \<Rightarrow> (error + path) \<times> world" where
  "extract_rootfs env hmx_file unsquashfs humidify extracted_root destroy w0 =
     (if isdir (files w0) extracted_root \<and> \<not> destroy then
        (Inl (IOError (''Existing: '' @ path_str extracted_root)),
         LOG ERROR (''extracted_root dir '' @ repr env (path_str extracted_root) @
                    '' exists and destroy=False'') w0)
      else if isdir (files w0) extracted_root then
        (case rmtree extracted_root (files w0) of
           (Some e, t) \<Rightarrow> (Inl e, w0\<lparr>files := t\<rparr>)
         | (None, t) \<Rightarrow>
             extract_step1 env hmx_file unsquashfs humidify extracted_root (w0\<lparr>files := t\<rparr>))
      else extract_step1 env hmx_file unsquashfs humidify extracted_root w0)"

section \<open>The callers\<close>

text \<open>
  \<^verbatim>\<open>prereq_programs\<close> (lines 221 to 233): the handler logs and re-raises.
  \<^verbatim>\<open>run_extraction\<close> (lines 235 to 243): the handler logs and ends, so the function
  returns \<^verbatim>\<open>None\<close>. Only \<^verbatim>\<open>MissingPrerequisite\<close> is caught; any other exception passes.
\<close>

definition prereq_programs_try :: "env \<Rightarrow> world \<Rightarrow> (error + path \<times> path \<times> path) \<times> world" where
  "prereq_programs_try env w0 =
     (case prereq_hmx env default_source_url w0 of
        (Inl e, w1) \<Rightarrow> (Inl e, w1)
      | (Inr hmx_file, w1) \<Rightarrow>
          (case prereq_unsquashfs env w1 of
             (Inl e, w2) \<Rightarrow> (Inl e, w2)
           | (Inr unsquashfs, w2) \<Rightarrow>
               (case prereq_humidify env w2 of
                  (Inl e, w3) \<Rightarrow> (Inl e, w3)
                | (Inr humidify, w3) \<Rightarrow> (Inr (hmx_file, unsquashfs, humidify), w3))))"

definition prereq_programs :: "env \<Rightarrow> world \<Rightarrow> (error + path \<times> path \<times> path) \<times> world" where
  "prereq_programs env w0 =
     (case prereq_programs_try env w0 of
        (Inl (MissingPrerequisite what), w1) \<Rightarrow>
          (Inl (MissingPrerequisite what),
           LOG ERROR (''Missing prerequisite: '' @ path_str what) w1)
      | (Inl e, w1) \<Rightarrow> (Inl e, w1)
      | (Inr r, w1) \<Rightarrow> (Inr r, w1))"

definition run_extraction_try :: "env \<Rightarrow> world \<Rightarrow> (error + path) \<times> world" where
  "run_extraction_try env w0 =
     (case prereq_programs env w0 of
        (Inl e, w1) \<Rightarrow> (Inl e, w1)
      | (Inr (hmx_file, unsquashfs, humidify), w1) \<Rightarrow>
          extract_rootfs env (path_str hmx_file) (path_str unsquashfs) (path_str humidify)
            (EXTRACTED_ROOT env) False w1)"

definition run_extraction :: "env \<Rightarrow> world \<Rightarrow> (error + path option) \<times> world" where
  "run_extraction env w0 =
     (case run_extraction_try env w0 of
        (Inl (MissingPrerequisite what), w1) \<Rightarrow>
          (Inr None, LOG ERROR (''Missing prerequisite: '' @ path_str what) w1)
      | (Inl e, w1) \<Rightarrow> (Inl e, w1)
      | (Inr r, w1) \<Rightarrow> (Inr (Some r), w1))"


section \<open>Sample worlds\<close>

text \<open>
  Concrete inputs on which the theorems below are instantiated: tools that produce what
  the pipeline expects (\<open>demo_env\<close>), tools that produce nothing (\<open>idle_env\<close>), a project
  directory with every prerequisite and an old output directory (\<open>installed_fs\<close>) and an
  empty one (\<open>bare_fs\<close>).
\<close>

definition demo_tools :: "string \<Rightarrow> path \<Rightarrow> node \<Rightarrow> node" where
  "demo_tools cmd d t =
     (if take 5 cmd = ''sudo '' then
        (if take 10 cmd = ''sudo chown'' then t
         else put (d @ [''squashfs-root'']) (Dir [(''etc'', Dir [(''passwd'', File ''root'')])]) t)
      else put (d @ [''3.hdfbin-3-700000.raw'']) (File ''raw'') t)"

definition demo_env :: env where
  "demo_env = \<lparr>PROJECT_ROOT = [''proj''], TEMP_DIR = [''tmp'', ''work''],
     shell = demo_tools, urlopen = (\<lambda>u. None),
     zip_member = (\<lambda>b m. None), xdev = (\<lambda>a b. False),
     geteuid = 1000, getegid = 1000, repr = (\<lambda>s. s)\<rparr>"

definition idle_env :: env where
  "idle_env = demo_env\<lparr>shell := (\<lambda>cmd d t. t)\<rparr>"

definition installed_fs :: node where
  "installed_fs =
     Dir [(''proj'',
           Dir [(''original_firmware'', Dir [(''hdpvr.hmx'', File ''hmx'')]),
                (''firmware-mod-kit-read-only'',
                 Dir [(''trunk'', Dir [(''src'', Dir [(''squashfs-3.0'',
                    Dir [(''unsquashfs'', File ''elf'')])])])]),
                (''bin'', Dir [(''humidify-linux-i386'', File ''elf'')]),
                (''extracted_root'', Dir [(''old'', File ''x'')])]),
          (''tmp'', Dir [(''work'', Dir [])]),
          (''home'', Dir [])]"

definition bare_fs :: node where
  "bare_fs = Dir [(''proj'', Dir []), (''tmp'', Dir [(''work'', Dir [])]), (''home'', Dir [])]"

definition world_at :: "node \<Rightarrow> world" where
  "world_at t = \<lparr>files = t, cwd = [''home''], calls = [], fetched = [], logged = []\<rparr>"


text \<open>Two worlds that differ at most in the log: no effect on files, directory, tools or network.\<close>

definition only_logged :: "world \<Rightarrow> world \<Rightarrow> bool" where
  "only_logged w w' =
     (files w' = files w \<and> cwd w' = cwd w \<and> calls w' = calls w \<and> fetched w' = fetched w)"

text \<open>
  Further samples: a checkout that brings the source tree and a build that produces
  nothing (\<open>stub_env\<close>), a scratch directory left by an earlier run (\<open>resumed_fs\<close>), and
  project directories without the unpack tool (\<open>no_humidify_fs\<close>) and without an output
  directory (\<open>ready_fs\<close>).
\<close>

definition stub_tools :: "string \<Rightarrow> path \<Rightarrow> node \<Rightarrow> node" where
  "stub_tools cmd d t =
     (if take 4 cmd = ''svn '' then
        put (d @ [''firmware-mod-kit-read-only'']) (Dir [(''trunk'', Dir [(''src'', Dir [])])]) t
      else t)"

definition stub_env :: env where
  "stub_env = demo_env\<lparr>shell := stub_tools\<rparr>"

definition resumed_fs :: node where
  "resumed_fs =
     Dir [(''proj'', Dir []),
          (''tmp'', Dir [(''work'',
             Dir [(''3.hdfbin-3-700000.raw'', File ''raw''),
                  (''squashfs-root'', Dir [(''etc'', Dir [])])])]),
          (''home'', Dir [])]"

definition no_humidify_fs :: node where
  "no_humidify_fs =
     Dir [(''proj'',
           Dir [(''original_firmware'', Dir [(''hdpvr.hmx'', File ''hmx'')]),
                (''firmware-mod-kit-read-only'',
                 Dir [(''trunk'', Dir [(''src'', Dir [(''squashfs-3.0'',
                    Dir [(''unsquashfs'', File ''elf'')])])])])]),
          (''tmp'', Dir [(''work'', Dir [])]),
          (''home'', Dir [])]"

definition ready_fs :: node where
  "ready_fs =
     Dir [(''proj'',
           Dir [(''original_firmware'', Dir [(''hdpvr.hmx'', File ''hmx'')]),
                (''firmware-mod-kit-read-only'',
                 Dir [(''trunk'', Dir [(''src'', Dir [(''squashfs-3.0'',
                    Dir [(''unsquashfs'', File ''elf'')])])])]),
                (''bin'', Dir [(''humidify-linux-i386'', File ''elf'')])]),
          (''tmp'', Dir [(''work'', Dir [])]),
          (''home'', Dir [])]"

text \<open>A scratch directory in which the extracted tree has been replaced by a plain file.\<close>

definition odd_fs :: node where
  "odd_fs =
     Dir [(''proj'', Dir []),
          (''tmp'', Dir [(''work'', Dir [(''squashfs-root'', File ''junk'')])]),
          (''home'', Dir [])]"

text \<open>
  Samples for a move between devices: a decompress tool whose tree holds a named pipe
  (\<open>fifo_tools\<close>) with the scratch directory on another device than the project
  (\<open>xdev_env\<close>); an unpack tool that creates the output directory instead of the raw
  image (\<open>greedy_env\<close>); a network and an archive that deliver the firmware (\<open>net_env\<close>).
\<close>

definition fifo_tools :: "string \<Rightarrow> path \<Rightarrow> node \<Rightarrow> node" where
  "fifo_tools cmd d t =
     (if take 5 cmd = ''sudo '' then
        (if take 10 cmd = ''sudo chown'' then t
         else put (d @ [''squashfs-root''])
                (Dir [(''etc'', Dir [(''passwd'', File ''root'')]),
                      (''dev'', Dir [(''initctl'', Fifo)])]) t)
      else put (d @ [''3.hdfbin-3-700000.raw'']) (File ''raw'') t)"

definition xdev_env :: env where
  "xdev_env = demo_env\<lparr>shell := fifo_tools, xdev := (\<lambda>a b. True)\<rparr>"

definition greedy_tools :: "string \<Rightarrow> path \<Rightarrow> node \<Rightarrow> node" where
  "greedy_tools cmd d t = put [''proj'', ''extracted_root''] (Dir []) t"

definition greedy_env :: env where
  "greedy_env = demo_env\<lparr>shell := greedy_tools\<rparr>"

definition net_env :: env where
  "net_env = demo_env\<lparr>urlopen := (\<lambda>u. Some ''zip''), zip_member := (\<lambda>b m. Some ''hmx'')\<rparr>"

section \<open>Facts about the file system\<close>

lemma map_of_filter_neq: "map_of (filter (\<lambda>e. fst e \<noteq> c) es) c = None"
  by (induction es) auto

lemma map_of_map_upd:
  "map_of (map (\<lambda>e. if fst e = c then (c, f (snd e)) else e) es) c = map_option f (map_of es c)"
  by (induction es) auto

lemma lookup_remove_self: "p \<noteq> [] \<Longrightarrow> lookup (remove p t) p = None"
proof (induction p arbitrary: t)
  case Nil
  then show ?case by simp
next
  case (Cons c cs)
  show ?case
  proof (cases cs)
    case Nil
    then show ?thesis by (cases t) (simp_all add: map_of_filter_neq)
  next
    case (Cons v va)
    have ih: "\<And>x. lookup (remove cs x) cs = None"
      using Cons.IH Cons by simp
    show ?thesis
      using Cons ih by (cases t) (auto simp: map_of_map_upd split: option.splits)
  qed
qed


lemma lookup_snoc_parent:
  "lookup t (p @ [c]) = Some n \<Longrightarrow> \<exists>es. lookup t p = Some (Dir es)"
proof (induction p arbitrary: t)
  case Nil
  then show ?case by (cases t) (auto split: option.splits)
next
  case (Cons a p)
  then show ?case by (auto split: option.splits)
qed

lemma isfile_parent_isdir: "isfile t (p @ [c]) \<Longrightarrow> isdir t p"
  using lookup_snoc_parent [of t p c]
  by (auto simp: isfile_def isdir_def split: option.splits node.splits)

lemma map_of_map_other:
  "a \<noteq> c \<Longrightarrow> map_of (map (\<lambda>e. if fst e = c then (c, f (snd e)) else e) es) a = map_of es a"
  by (induction es) auto

lemma map_of_filter_other:
  "a \<noteq> c \<Longrightarrow> map_of (filter (\<lambda>e. fst e \<noteq> c) es) a = map_of es a"
  by (induction es) auto

lemma lookup_put_other:
  "lookup t p = None \<Longrightarrow> \<not> prefix q p \<Longrightarrow> lookup (put q n t) p = None"
proof (induction q arbitrary: t p)
  case Nil
  then show ?case by simp
next
  case (Cons c cs)
  show ?case
  proof (cases p)
    case Nil
    with Cons.prems show ?thesis by simp
  next
    case (Cons a ps)
    note p = this
    show ?thesis
    proof (cases t)
      case (Dir es)
      show ?thesis
      proof (cases cs)
        case Nil
        with Cons.prems p Dir show ?thesis
          by (auto simp: map_of_filter_other split: option.splits)
      next
        case (Cons v va)
        show ?thesis
        proof (cases "a = c")
          case False
          with Cons.prems p Dir Cons show ?thesis
            by (auto simp: map_of_map_other split: option.splits)
        next
          case True
          have np: "\<not> prefix cs ps" using Cons.prems(2) p True by simp
          show ?thesis
          proof (cases "map_of es c")
            case None
            with p Dir Cons True show ?thesis by (simp add: map_of_map_upd)
          next
            case (Some m)
            with Cons.prems(1) p Dir True have "lookup m ps = None" by simp
            from Cons.IH [OF this np] Some p Dir Cons True show ?thesis
              by (simp add: map_of_map_upd)
          qed
        qed
      qed
    next
      case (File s)
      with Cons.prems p show ?thesis by (cases cs) simp_all
    next
      case Fifo
      with Cons.prems p show ?thesis by (cases cs) simp_all
    qed
  qed
qed

lemma lookup_append_parent:
  "lookup t (p @ q) = Some n \<Longrightarrow> q \<noteq> [] \<Longrightarrow> isdir t p"
proof (induction p arbitrary: t)
  case Nil
  then show ?case
    by (cases q; cases t) (auto simp: isdir_def split: option.splits)
next
  case (Cons a p)
  show ?case
  proof (cases "child t a")
    case None
    with Cons.prems show ?thesis by simp
  next
    case (Some m)
    with Cons.prems have "lookup m (p @ q) = Some n" by simp
    from Cons.IH [OF this Cons.prems(2)] Some show ?thesis
      by (simp add: isdir_def)
  qed
qed


section \<open>The output directory is protected\<close>

text \<open>
  C3. When \<open>extracted_root\<close> is a directory and \<open>destroy\<close> is false, \<open>extract\<close> raises
  \<^verbatim>\<open>IOError("Existing: ...")\<close>, which is no \<^verbatim>\<open>MissingPrerequisite\<close>; no tool has run (the
  trace of calls is unchanged) and the file system, hence the directory and all its
  contents, is unchanged, as are the working directory and the network trace. Only a log
  record has been added.
\<close>

theorem extract_destination_exists:
  assumes "isdir (files w) extracted_root" and "\<not> destroy"
  shows "\<exists>w'. extract_rootfs env hmx_file unsquashfs humidify extracted_root destroy w =
            (Inl (IOError (''Existing: '' @ path_str extracted_root)), w') \<and>
          (\<forall>p. IOError (''Existing: '' @ path_str extracted_root) \<noteq> MissingPrerequisite p) \<and>
          calls w' = calls w \<and> files w' = files w \<and> cwd w' = cwd w \<and> fetched w' = fetched w"
  using assms by (simp add: extract_rootfs_def LOG_def)

theorem extract_destination_exists_witness:
  "isdir (files (world_at installed_fs)) [''proj'', ''extracted_root''] \<and>
   fst (extract_rootfs demo_env ''H'' ''U'' ''M'' [''proj'', ''extracted_root''] False
          (world_at installed_fs)) = Inl (IOError ''Existing: /proj/extracted_root'') \<and>
   calls (snd (extract_rootfs demo_env ''H'' ''U'' ''M'' [''proj'', ''extracted_root''] False
          (world_at installed_fs))) = [] \<and>
   lookup (files (snd (extract_rootfs demo_env ''H'' ''U'' ''M'' [''proj'', ''extracted_root''] False
          (world_at installed_fs)))) [''proj'', ''extracted_root''] = Some (Dir [(''old'', File ''x'')])"
proof -
  have h: "isdir (files (world_at installed_fs)) [''proj'', ''extracted_root'']"
    by (simp add: isdir_def installed_fs_def world_at_def)
  have n: "\<not> False" by simp
  from extract_destination_exists [OF h n, of demo_env "''H''" "''U''" "''M''"]
  obtain w' where
    "extract_rootfs demo_env ''H'' ''U'' ''M'' [''proj'', ''extracted_root''] False
       (world_at installed_fs) = (Inl (IOError (''Existing: '' @ path_str [''proj'', ''extracted_root''])), w')"
    "calls w' = calls (world_at installed_fs)" "files w' = files (world_at installed_fs)"
    by blast
  then show ?thesis using h
    by (simp add: path_str_def world_at_def installed_fs_def)
qed

section \<open>A missing unpack result stops the pipeline\<close>

text \<open>
  C5. Let \<open>t1\<close> be the file system with which step 1 starts (the old output directory
  removed when \<open>destroy\<close> asked for it). When the raw image is not in the scratch
  directory, the unpack tool is invoked there, and when the raw image is still absent
  afterwards, \<open>extract\<close> raises \<^verbatim>\<open>MissingPrerequisite\<close> with exactly the expected path of
  the raw image. The run has made one call, the unpack command: the decompress tool has
  not been invoked.
\<close>

theorem unpack_output_missing:
  assumes "t1 = (if isdir (files w) extracted_root then remove extracted_root (files w)
                 else files w)"
    and "isdir (files w) extracted_root \<longrightarrow> destroy \<and> extracted_root \<noteq> []"
    and "\<not> isfile t1 (raw_filename env)"
    and "isdir t1 (TEMP_DIR env)"
    and "\<not> isfile (shell env (unpack_cmd humidify hmx_file) (TEMP_DIR env) t1) (raw_filename env)"
  shows "\<exists>w'. extract_rootfs env hmx_file unsquashfs humidify extracted_root destroy w =
            (Inl (MissingPrerequisite (raw_filename env)), w') \<and>
          calls w' = calls w @ [(unpack_cmd humidify hmx_file, TEMP_DIR env)]"
proof (cases "isdir (files w) extracted_root")
  case True
  with assms have "destroy" "extracted_root \<noteq> []" "t1 = remove extracted_root (files w)"
    by simp_all
  with True assms(3,4,5) show ?thesis
    by (simp add: extract_rootfs_def extract_step1_def rmtree_def chdir_def call_def LOG_def
        Let_def)
next
  case False
  with assms have "t1 = files w" by simp
  with False assms(3,4,5) show ?thesis
    by (simp add: extract_rootfs_def extract_step1_def rmtree_def chdir_def call_def LOG_def
        Let_def)
qed

theorem unpack_output_missing_witness:
  "fst (extract_rootfs idle_env ''H'' ''U'' ''M'' [''proj'', ''extracted_root''] False
          (world_at bare_fs)) = Inl (MissingPrerequisite [''tmp'', ''work'', ''3.hdfbin-3-700000.raw'']) \<and>
   calls (snd (extract_rootfs idle_env ''H'' ''U'' ''M'' [''proj'', ''extracted_root''] False
          (world_at bare_fs))) = [(''M -x H'', [''tmp'', ''work''])]"
proof -
  have a: "bare_fs = (if isdir (files (world_at bare_fs)) [''proj'', ''extracted_root'']
              then remove [''proj'', ''extracted_root''] (files (world_at bare_fs))
              else files (world_at bare_fs))"
    by (simp add: world_at_def bare_fs_def isdir_def)
  have b: "isdir (files (world_at bare_fs)) [''proj'', ''extracted_root''] \<longrightarrow>
             False \<and> [''proj'', ''extracted_root''] \<noteq> []"
    by (simp add: world_at_def bare_fs_def isdir_def)
  have c: "\<not> isfile bare_fs (raw_filename idle_env)"
    by (simp add: bare_fs_def isfile_def raw_filename_def idle_env_def demo_env_def)
  have d: "isdir bare_fs (TEMP_DIR idle_env)"
    by (simp add: bare_fs_def isdir_def idle_env_def demo_env_def)
  have e: "\<not> isfile (shell idle_env (unpack_cmd ''M'' ''H'') (TEMP_DIR idle_env) bare_fs)
             (raw_filename idle_env)"
    by (simp add: bare_fs_def isfile_def raw_filename_def idle_env_def demo_env_def)
  from unpack_output_missing [OF a b c d e, of "''U''"]
  show ?thesis
    by (auto simp: raw_filename_def idle_env_def demo_env_def unpack_cmd_def world_at_def)
qed

section \<open>Resolving a prerequisite that is present\<close>

text \<open>
  Each resolver tests its canonical path first and returns it when the file is there,
  after writing log records only. When a resolver returns a path, that path is its
  canonical path and the file is there.
\<close>

lemma files_LOG [simp]: "files (LOG l m w) = files w"
  by (simp add: LOG_def)

lemma prereq_hmx_present:
  "isfile (files w) (hmx_filename env) \<Longrightarrow>
     \<exists>w'. prereq_hmx env url w = (Inr (hmx_filename env), w') \<and> only_logged w w'"
  by (simp add: prereq_hmx_def Let_def only_logged_def LOG_def)

lemma prereq_unsquashfs_present:
  "isfile (files w) (unsquashfs_filename env) \<Longrightarrow>
     \<exists>w'. prereq_unsquashfs env w = (Inr (unsquashfs_filename env), w') \<and> only_logged w w'"
  by (simp add: prereq_unsquashfs_def Let_def only_logged_def LOG_def)

lemma prereq_humidify_present:
  "isfile (files w) (humidify_filename env) \<Longrightarrow>
     \<exists>w'. prereq_humidify env w = (Inr (humidify_filename env), w') \<and> only_logged w w'"
  by (simp add: prereq_humidify_def Let_def only_logged_def LOG_def)

lemma prereq_hmx_success:
  "prereq_hmx env url w = (Inr p, w1) \<Longrightarrow> p = hmx_filename env \<and> isfile (files w1) p"
  by (auto simp: prereq_hmx_def Let_def LOG_def split: if_splits sum.splits prod.splits option.splits)

lemma prereq_unsquashfs_success:
  "prereq_unsquashfs env w = (Inr p, w1) \<Longrightarrow> p = unsquashfs_filename env \<and> isfile (files w1) p"
  by (auto simp: prereq_unsquashfs_def Let_def LOG_def split: if_splits sum.splits prod.splits)

lemma prereq_humidify_success:
  "prereq_humidify env w = (Inr p, w1) \<Longrightarrow> p = humidify_filename env \<and> isfile (files w1) p"
  by (auto simp: prereq_humidify_def Let_def LOG_def split: if_splits sum.splits prod.splits)

text \<open>
  C7. For each of the three prerequisites (firmware image \<^verbatim>\<open>prereq_hmx\<close>, decompress tool
  \<^verbatim>\<open>prereq_unsquashfs\<close>, unpack tool \<^verbatim>\<open>prereq_humidify\<close>): when the file is present at its
  canonical path, the call returns that path and changes neither the file system, nor the
  working directory, nor the trace of shell commands (checkout, configure, build), nor the
  trace of downloads; so a call that follows a successful call returns the same path
  with no such effect.
\<close>

theorem resolve_idempotent:
  "(isfile (files w) (hmx_filename env) \<longrightarrow>
      (\<exists>w'. prereq_hmx env url w = (Inr (hmx_filename env), w') \<and> only_logged w w')) \<and>
   (isfile (files w) (unsquashfs_filename env) \<longrightarrow>
      (\<exists>w'. prereq_unsquashfs env w = (Inr (unsquashfs_filename env), w') \<and> only_logged w w')) \<and>
   (isfile (files w) (humidify_filename env) \<longrightarrow>
      (\<exists>w'. prereq_humidify env w = (Inr (humidify_filename env), w') \<and> only_logged w w')) \<and>
   (prereq_hmx env url w = (Inr p, w1) \<longrightarrow>
      (\<exists>w2. prereq_hmx env url w1 = (Inr p, w2) \<and> only_logged w1 w2)) \<and>
   (prereq_unsquashfs env w = (Inr q, v1) \<longrightarrow>
      (\<exists>v2. prereq_unsquashfs env v1 = (Inr q, v2) \<and> only_logged v1 v2)) \<and>
   (prereq_humidify env w = (Inr r, u1) \<longrightarrow>
      (\<exists>u2. prereq_humidify env u1 = (Inr r, u2) \<and> only_logged u1 u2))"
proof (intro conjI impI)
  assume "isfile (files w) (hmx_filename env)"
  then show "\<exists>w'. prereq_hmx env url w = (Inr (hmx_filename env), w') \<and> only_logged w w'"
    by (rule prereq_hmx_present)
next
  assume "isfile (files w) (unsquashfs_filename env)"
  then show "\<exists>w'. prereq_unsquashfs env w = (Inr (unsquashfs_filename env), w') \<and>
               only_logged w w'"
    by (rule prereq_unsquashfs_present)
next
  assume "isfile (files w) (humidify_filename env)"
  then show "\<exists>w'. prereq_humidify env w = (Inr (humidify_filename env), w') \<and>
               only_logged w w'"
    by (rule prereq_humidify_present)
next
  assume "prereq_hmx env url w = (Inr p, w1)"
  then have "p = hmx_filename env" "isfile (files w1) (hmx_filename env)"
    using prereq_hmx_success by blast+
  then show "\<exists>w2. prereq_hmx env url w1 = (Inr p, w2) \<and> only_logged w1 w2"
    using prereq_hmx_present by simp
next
  assume "prereq_unsquashfs env w = (Inr q, v1)"
  then have "q = unsquashfs_filename env" "isfile (files v1) (unsquashfs_filename env)"
    using prereq_unsquashfs_success by blast+
  then show "\<exists>v2. prereq_unsquashfs env v1 = (Inr q, v2) \<and> only_logged v1 v2"
    using prereq_unsquashfs_present by simp
next
  assume "prereq_humidify env w = (Inr r, u1)"
  then have "r = humidify_filename env" "isfile (files u1) (humidify_filename env)"
    using prereq_humidify_success by blast+
  then show "\<exists>u2. prereq_humidify env u1 = (Inr r, u2) \<and> only_logged u1 u2"
    using prereq_humidify_present by simp
qed

theorem resolve_idempotent_witness:
  "isfile (files (world_at installed_fs)) [''proj'', ''original_firmware'', ''hdpvr.hmx''] \<and>
   isfile (files (world_at installed_fs))
     [''proj'', ''firmware-mod-kit-read-only'', ''trunk'', ''src'', ''squashfs-3.0'',
      ''unsquashfs''] \<and>
   isfile (files (world_at installed_fs)) [''proj'', ''bin'', ''humidify-linux-i386''] \<and>
   (\<exists>w1 w2.
      prereq_hmx demo_env default_source_url (world_at installed_fs) =
        (Inr [''proj'', ''original_firmware'', ''hdpvr.hmx''], w1) \<and>
      only_logged (world_at installed_fs) w1 \<and>
      prereq_hmx demo_env default_source_url w1 =
        (Inr [''proj'', ''original_firmware'', ''hdpvr.hmx''], w2) \<and>
      only_logged w1 w2) \<and>
   (\<exists>v1 v2.
      prereq_unsquashfs demo_env (world_at installed_fs) =
        (Inr [''proj'', ''firmware-mod-kit-read-only'', ''trunk'', ''src'', ''squashfs-3.0'',
              ''unsquashfs''], v1) \<and>
      only_logged (world_at installed_fs) v1 \<and>
      prereq_unsquashfs demo_env v1 =
        (Inr [''proj'', ''firmware-mod-kit-read-only'', ''trunk'', ''src'', ''squashfs-3.0'',
              ''unsquashfs''], v2) \<and>
      only_logged v1 v2) \<and>
   (\<exists>u1 u2.
      prereq_humidify demo_env (world_at installed_fs) =
        (Inr [''proj'', ''bin'', ''humidify-linux-i386''], u1) \<and>
      only_logged (world_at installed_fs) u1 \<and>
      prereq_humidify demo_env u1 = (Inr [''proj'', ''bin'', ''humidify-linux-i386''], u2) \<and>
      only_logged u1 u2)"
proof -
  let ?W = "world_at installed_fs"
  have names:
    "hmx_filename demo_env = [''proj'', ''original_firmware'', ''hdpvr.hmx'']"
    "unsquashfs_filename demo_env =
       [''proj'', ''firmware-mod-kit-read-only'', ''trunk'', ''src'', ''squashfs-3.0'',
        ''unsquashfs'']"
    "humidify_filename demo_env = [''proj'', ''bin'', ''humidify-linux-i386'']"
    by (simp_all add: hmx_filename_def unsquashfs_filename_def humidify_filename_def
        demo_env_def)
  have h: "isfile (files ?W) (hmx_filename demo_env)"
    and u: "isfile (files ?W) (unsquashfs_filename demo_env)"
    and m: "isfile (files ?W) (humidify_filename demo_env)"
    by (simp_all add: names world_at_def installed_fs_def isfile_def)
  note first = resolve_idempotent [of ?W demo_env default_source_url]
  from first h obtain w1 where w1:
    "prereq_hmx demo_env default_source_url ?W = (Inr (hmx_filename demo_env), w1)"
    "only_logged ?W w1"
    by blast
  from first u obtain v1 where v1:
    "prereq_unsquashfs demo_env ?W = (Inr (unsquashfs_filename demo_env), v1)"
    "only_logged ?W v1"
    by blast
  from first m obtain u1 where u1:
    "prereq_humidify demo_env ?W = (Inr (humidify_filename demo_env), u1)"
    "only_logged ?W u1"
    by blast
  from resolve_idempotent [of ?W demo_env default_source_url "hmx_filename demo_env" w1
      "unsquashfs_filename demo_env" v1 "humidify_filename demo_env" u1] w1(1) v1(1) u1(1)
  obtain w2 v2 u2 where
    "prereq_hmx demo_env default_source_url w1 = (Inr (hmx_filename demo_env), w2)"
    "only_logged w1 w2"
    "prereq_unsquashfs demo_env v1 = (Inr (unsquashfs_filename demo_env), v2)"
    "only_logged v1 v2"
    "prereq_humidify demo_env u1 = (Inr (humidify_filename demo_env), u2)"
    "only_logged u1 u2"
    by blast
  with w1 v1 u1 h u m show ?thesis
    unfolding names by blast
qed

section \<open>Unfolding the model on the samples\<close>

lemmas model_defs =
  extract_rootfs_def extract_step1_def extract_step2_def extract_step3_def extract_step4_def
  shutil_move_def move_to_def rename_def samefile_def destinsrc_def copytree_def copy2_def
  unlink_def rmtree_def makedirs_def chdir_def call_def LOG_def
  raw_filename_def squashfs_root_def unpack_cmd_def decompress_cmd_def chown_cmd_def
  isdir_def isfile_def exists_def path_str_def Let_def dec.simps digit_def
  run_extraction_def run_extraction_try_def prereq_programs_def prereq_programs_try_def
  prereq_hmx_def prereq_unsquashfs_def prereq_humidify_def commands_def
  hmx_filename_def unsquashfs_filename_def humidify_filename_def EXTRACTED_ROOT_def
  default_source_url_def source_urls_def

lemmas sample_defs =
  demo_env_def idle_env_def stub_env_def demo_tools_def stub_tools_def
  installed_fs_def bare_fs_def resumed_fs_def no_humidify_fs_def ready_fs_def odd_fs_def
  world_at_def fifo_tools_def xdev_env_def greedy_tools_def greedy_env_def net_env_def

section \<open>Errors of the library calls\<close>






section \<open>Destroying the old output directory\<close>









section \<open>The working directory after the pipeline\<close>

text \<open>
  Steps 3 and 4 do not touch the working directory. Step 2 changes into the scratch
  directory; it is entered only with the raw image present, and then the scratch
  directory exists, so that change cannot fail. Step 1 changes into the scratch directory
  before it invokes the unpack tool.
\<close>

lemma extract_step4_cwd: "cwd (snd (extract_step4 env out w)) = cwd w"
  by (auto simp: extract_step4_def Let_def LOG_def split: prod.splits option.splits)

lemma extract_step3_cwd: "cwd (snd (extract_step3 env out w)) = cwd w"
  by (simp add: extract_step3_def Let_def extract_step4_cwd call_def LOG_def)

lemma extract_step2_cwd:
  assumes "isdir (files w) (TEMP_DIR env)"
  shows "cwd (snd (extract_step2 env u out w)) = TEMP_DIR env"
  using assms
  by (simp add: extract_step2_def Let_def chdir_def extract_step3_cwd call_def LOG_def)

lemma extract_step1_cwd:
  assumes "isfile (files w) (raw_filename env) \<or> isdir (files w) (TEMP_DIR env)"
  shows "cwd (snd (extract_step1 env h u m out w)) = TEMP_DIR env"
proof (cases "isfile (files w) (raw_filename env)")
  case True
  then have "isdir (files w) (TEMP_DIR env)"
    using isfile_parent_isdir [of "files w" "TEMP_DIR env"] by (simp add: raw_filename_def)
  with True show ?thesis
    by (simp add: extract_step1_def Let_def extract_step2_cwd)
next
  case False
  with assms have dir: "isdir (files w) (TEMP_DIR env)" by simp
  let ?w5 = "call env (unpack_cmd m h)
               ((LOG DEBUG ('' expected: '' @ path_str (raw_filename env))
                  (LOG DEBUG ('' cmd     : '' @ unpack_cmd m h)
                    (LOG INFO (''STEP 1: Extract hmx '' @ repr env h) w)))
                \<lparr>cwd := TEMP_DIR env\<rparr>)"
  have c5: "cwd ?w5 = TEMP_DIR env" by (simp add: call_def)
  show ?thesis
  proof (cases "isfile (files ?w5) (raw_filename env)")
    case noraw: False
    with False dir c5 show ?thesis
      by (simp add: extract_step1_def Let_def chdir_def)
  next
    case True
    then have "isdir (files ?w5) (TEMP_DIR env)"
      using isfile_parent_isdir [of "files ?w5" "TEMP_DIR env"] by (simp add: raw_filename_def)
    then have "cwd (snd (extract_step2 env u out ?w5)) = TEMP_DIR env"
      by (rule extract_step2_cwd)
    with True False dir show ?thesis
      by (simp add: extract_step1_def Let_def chdir_def)
  qed
qed

text \<open>
  C10. Let the run get past the guard and the removal of an old output directory, and
  let \<open>t1\<close> be the file system with which step 1 starts. When the run reaches the
  invocation of the unpack tool (the raw image is absent and the scratch directory is
  there to change into) or reaches step 2 (the raw image is there already, or it is
  there after the unpack tool has run), \<open>extract\<close> ends, with a result or with an
  exception, in the scratch directory \<^verbatim>\<open>TEMP_DIR\<close>: nothing changes the working
  directory back, so the caller's working directory is not kept.
\<close>

theorem extract_leaves_cwd_in_scratch:
  assumes "(\<not> isdir (files w) extracted_root \<and> t1 = files w) \<or>
           (isdir (files w) extracted_root \<and> destroy \<and> extracted_root \<noteq> [] \<and>
            t1 = remove extracted_root (files w))"
    and "(\<not> isfile t1 (raw_filename env) \<and> isdir t1 (TEMP_DIR env)) \<or>
         isfile t1 (raw_filename env) \<or>
         (isdir t1 (TEMP_DIR env) \<and>
          isfile (shell env (unpack_cmd humidify hmx_file) (TEMP_DIR env) t1) (raw_filename env))"
  shows "cwd (snd (extract_rootfs env hmx_file unsquashfs humidify extracted_root destroy w)) =
           TEMP_DIR env"
proof -
  from assms(2) have reach: "isfile t1 (raw_filename env) \<or> isdir t1 (TEMP_DIR env)"
    by blast
  from assms(1) have
    "extract_rootfs env hmx_file unsquashfs humidify extracted_root destroy w =
       extract_step1 env hmx_file unsquashfs humidify extracted_root (w\<lparr>files := t1\<rparr>)"
    by (auto simp: extract_rootfs_def rmtree_def)
  moreover have
    "cwd (snd (extract_step1 env hmx_file unsquashfs humidify extracted_root (w\<lparr>files := t1\<rparr>))) =
       TEMP_DIR env"
    using reach by (intro extract_step1_cwd) simp
  ultimately show ?thesis by simp
qed

theorem extract_leaves_cwd_in_scratch_witness:
  "cwd (world_at resumed_fs) = [''home''] \<and>
   isfile (files (world_at resumed_fs)) [''tmp'', ''work'', ''3.hdfbin-3-700000.raw''] \<and>
   fst (extract_rootfs demo_env ''H'' ''U'' ''M'' [''proj'', ''extracted_root''] False
          (world_at resumed_fs)) = Inr [''proj'', ''extracted_root''] \<and>
   cwd (snd (extract_rootfs demo_env ''H'' ''U'' ''M'' [''proj'', ''extracted_root''] False
               (world_at resumed_fs))) = [''tmp'', ''work''] \<and>
   fst (extract_rootfs demo_env ''H'' ''U'' ''M'' [''proj'', ''extracted_root''] True
          (world_at installed_fs)) = Inr [''proj'', ''extracted_root''] \<and>
   cwd (snd (extract_rootfs demo_env ''H'' ''U'' ''M'' [''proj'', ''extracted_root''] True
               (world_at installed_fs))) = [''tmp'', ''work''] \<and>
   fst (extract_rootfs idle_env ''H'' ''U'' ''M'' [''proj'', ''extracted_root''] False
          (world_at bare_fs)) =
     Inl (MissingPrerequisite [''tmp'', ''work'', ''3.hdfbin-3-700000.raw'']) \<and>
   cwd (snd (extract_rootfs idle_env ''H'' ''U'' ''M'' [''proj'', ''extracted_root''] False
               (world_at bare_fs))) = [''tmp'', ''work'']"
proof -
  let ?out = "[''proj'', ''extracted_root'']"
  let ?raw = "[''tmp'', ''work'', ''3.hdfbin-3-700000.raw'']"
  have names: "raw_filename demo_env = ?raw" "TEMP_DIR demo_env = [''tmp'', ''work'']"
    "raw_filename idle_env = ?raw" "TEMP_DIR idle_env = [''tmp'', ''work'']"
    by (simp_all add: raw_filename_def sample_defs)
  have a1: "(\<not> isdir (files (world_at resumed_fs)) ?out \<and> resumed_fs = files (world_at resumed_fs)) \<or>
      (isdir (files (world_at resumed_fs)) ?out \<and> False \<and> ?out \<noteq> [] \<and>
       resumed_fs = remove ?out (files (world_at resumed_fs)))"
    by (simp add: isdir_def sample_defs)
  have a2: "(\<not> isfile resumed_fs (raw_filename demo_env) \<and> isdir resumed_fs (TEMP_DIR demo_env)) \<or>
      isfile resumed_fs (raw_filename demo_env) \<or>
      (isdir resumed_fs (TEMP_DIR demo_env) \<and>
       isfile (shell demo_env (unpack_cmd ''M'' ''H'') (TEMP_DIR demo_env) resumed_fs)
         (raw_filename demo_env))"
    by (simp add: model_defs sample_defs)
  note one = extract_leaves_cwd_in_scratch [OF a1 a2, of "''U''"]
  have b1: "(\<not> isdir (files (world_at installed_fs)) ?out \<and>
       remove ?out installed_fs = files (world_at installed_fs)) \<or>
      (isdir (files (world_at installed_fs)) ?out \<and> True \<and> ?out \<noteq> [] \<and>
       remove ?out installed_fs = remove ?out (files (world_at installed_fs)))"
    by (simp add: isdir_def sample_defs)
  have b2: "(\<not> isfile (remove ?out installed_fs) (raw_filename demo_env) \<and>
       isdir (remove ?out installed_fs) (TEMP_DIR demo_env)) \<or>
      isfile (remove ?out installed_fs) (raw_filename demo_env) \<or>
      (isdir (remove ?out installed_fs) (TEMP_DIR demo_env) \<and>
       isfile (shell demo_env (unpack_cmd ''M'' ''H'') (TEMP_DIR demo_env)
                (remove ?out installed_fs)) (raw_filename demo_env))"
    by (simp add: model_defs sample_defs)
  note two = extract_leaves_cwd_in_scratch [OF b1 b2, of "''U''"]
  have c1: "(\<not> isdir (files (world_at bare_fs)) ?out \<and> bare_fs = files (world_at bare_fs)) \<or>
      (isdir (files (world_at bare_fs)) ?out \<and> False \<and> ?out \<noteq> [] \<and>
       bare_fs = remove ?out (files (world_at bare_fs)))"
    by (simp add: isdir_def sample_defs)
  have c2: "(\<not> isfile bare_fs (raw_filename idle_env) \<and> isdir bare_fs (TEMP_DIR idle_env)) \<or>
      isfile bare_fs (raw_filename idle_env) \<or>
      (isdir bare_fs (TEMP_DIR idle_env) \<and>
       isfile (shell idle_env (unpack_cmd ''M'' ''H'') (TEMP_DIR idle_env) bare_fs)
         (raw_filename idle_env))"
    by (simp add: model_defs sample_defs)
  note three = extract_leaves_cwd_in_scratch [OF c1 c2, of "''U''"]
  have results:
    "fst (extract_rootfs demo_env ''H'' ''U'' ''M'' ?out False (world_at resumed_fs)) = Inr ?out"
    "fst (extract_rootfs demo_env ''H'' ''U'' ''M'' ?out True (world_at installed_fs)) = Inr ?out"
    "fst (extract_rootfs idle_env ''H'' ''U'' ''M'' ?out False (world_at bare_fs)) =
       Inl (MissingPrerequisite ?raw)"
    by (simp_all add: model_defs sample_defs)
  have start: "cwd (world_at resumed_fs) = [''home'']"
    "isfile (files (world_at resumed_fs)) ?raw"
    by (simp_all add: isfile_def sample_defs)
  from one two three results start show ?thesis
    by (simp add: names)
qed

section \<open>Which error is raised where\<close>





















section \<open>The check after the move\<close>

text \<open>
  When \<^verbatim>\<open>shutil.move\<close> returns, the source is gone, unless source and destination are the
  same path: a rename has taken it away, or the copy has been followed by the deletion
  of the source.
\<close>

lemma lookup_append:
  "lookup t (p @ q) = (case lookup t p of None \<Rightarrow> None | Some m \<Rightarrow> lookup m q)"
  by (induction p arbitrary: t) (auto split: option.splits)

lemma rename_src_gone:
  assumes "rename env src rd t = Inr t1" and "src \<noteq> rd"
  shows "lookup t1 src = None"
proof -
  from assms obtain n where n: "lookup t src = Some n" and ne: "src \<noteq> []"
    and t1: "t1 = put rd n (remove src t)"
    and free: "\<not> isdir t rd \<or> lookup t rd = Some (Dir [])"
    by (auto simp: rename_def isdir_def split: option.splits if_splits node.splits)
  have "\<not> prefix rd src"
  proof
    assume "prefix rd src"
    then obtain q where q: "src = rd @ q" by (auto simp: prefix_def)
    with assms(2) have qne: "q \<noteq> []" by auto
    from n q qne have "isdir t rd" using lookup_append_parent by blast
    with free have "lookup t rd = Some (Dir [])" by simp
    with n q qne show False
      by (cases q) (simp_all add: lookup_append)
  qed
  with ne t1 show ?thesis
    by (simp add: lookup_put_other lookup_remove_self)
qed

lemma move_to_src_gone:
  assumes "move_to env src dst rd t = (None, t')" and "src \<noteq> rd \<or> \<not> exists t src"
    and "src \<noteq> []"
  shows "lookup t' src = None"
proof (cases "rename env src rd t")
  case (Inr t1)
  with assms(1) have "t' = t1" by (simp add: move_to_def)
  moreover from Inr have "exists t src"
    by (auto simp: rename_def exists_def split: option.splits)
  ultimately show ?thesis using rename_src_gone [OF Inr] assms(2) by simp
next
  case (Inl e)
  show ?thesis
  proof (cases "isdir t src")
    case True
    with Inl assms(1) obtain t1 where "rmtree src t1 = (None, t')"
      by (auto simp: move_to_def split: if_splits prod.splits option.splits)
    then have "t' = remove src t1"
      by (auto simp: rmtree_def split: if_splits)
    with assms(3) show ?thesis by (simp add: lookup_remove_self)
  next
    case False
    with Inl assms(1) obtain t1 where "unlink src t1 = Inr t'"
      by (auto simp: move_to_def split: if_splits sum.splits)
    then have "t' = remove src t1"
      by (auto simp: unlink_def split: if_splits)
    with assms(3) show ?thesis by (simp add: lookup_remove_self)
  qed
qed

lemma shutil_move_src_gone:
  assumes "shutil_move env src dst t = (None, t')" and "src \<noteq> dst" and "src \<noteq> []"
  shows "lookup t' src = None"
proof (cases "isdir t dst")
  case False
  with assms(1) have "move_to env src dst dst t = (None, t')"
    by (simp add: shutil_move_def)
  then show ?thesis using assms(2,3) by (intro move_to_src_gone) auto
next
  case True
  let ?rd = "dst @ [last src]"
  from True assms have m: "move_to env src dst ?rd t = (None, t')" and ex: "\<not> exists t ?rd"
    by (auto simp: shutil_move_def samefile_def Let_def split: if_splits)
  have "src \<noteq> ?rd \<or> \<not> exists t src" using ex by auto
  with m show ?thesis using assms(3) by (rule move_to_src_gone)
qed

lemma extract_step4_result:
  assumes "shutil_move env (squashfs_root env) out (files w) = (None, t)"
  shows "fst (extract_step4 env out w) =
           (if isdir t out then Inr out else Inl (MissingPrerequisite out)) \<and>
         files (snd (extract_step4 env out w)) = t \<and>
         (out \<noteq> squashfs_root env \<longrightarrow> \<not> exists t (squashfs_root env))"
proof -
  have "out \<noteq> squashfs_root env \<longrightarrow> lookup t (squashfs_root env) = None"
    using shutil_move_src_gone [OF assms] by (auto simp: squashfs_root_def)
  with assms show ?thesis
    by (simp add: extract_step4_def Let_def LOG_def exists_def)
qed

lemma extract_step4_returns:
  assumes "extract_step4 env out w = (Inr r, w')"
  shows "r = out \<and> isdir (files w') out \<and>
         (out \<noteq> squashfs_root env \<longrightarrow> \<not> exists (files w') (squashfs_root env))"
proof -
  from assms obtain t where t: "shutil_move env (squashfs_root env) out (files w) = (None, t)"
    by (auto simp: extract_step4_def Let_def LOG_def split: prod.splits option.splits if_splits)
  from extract_step4_result [OF t] assms show ?thesis
    by (auto split: if_splits)
qed

lemma extract_rootfs_returns:
  "extract_rootfs env h u m out destroy w = (Inr r, w') \<Longrightarrow>
     r = out \<and> isdir (files w') out \<and>
     (out \<noteq> squashfs_root env \<longrightarrow> \<not> exists (files w') (squashfs_root env))"
  by (auto simp: extract_rootfs_def extract_step1_def extract_step2_def extract_step3_def
      Let_def rmtree_def chdir_def
      dest!: extract_step4_returns split: if_splits)

text \<open>
  C4, as the claim states it, fails: called with the scratch location of the tree as its
  output directory, \<open>extract\<close> returns that path although the tree is still at the
  scratch location (\<^verbatim>\<open>shutil.move\<close> of a directory onto itself does nothing, and only
  the output directory is tested afterwards).
\<close>

theorem relocate_check_counterexample:
  "fst (extract_rootfs demo_env ''H'' ''U'' ''M'' [''tmp'', ''work'', ''squashfs-root''] False
          (world_at bare_fs)) = Inr [''tmp'', ''work'', ''squashfs-root''] \<and>
   isdir (files (snd (extract_rootfs demo_env ''H'' ''U'' ''M''
                        [''tmp'', ''work'', ''squashfs-root''] False (world_at bare_fs))))
     (squashfs_root demo_env)"
  by (simp add: model_defs sample_defs)

text \<open>
  C4, amended: the claim holds for every output directory other than the scratch
  location of the tree itself. After \<^verbatim>\<open>shutil.move\<close> has returned a file system \<open>t\<close>,
  nothing is left at the scratch location (the move sees to that; \<open>extract\<close> does not
  test it), and step 4 tests the output directory: it raises
  \<^verbatim>\<open>MissingPrerequisite(extracted_root)\<close> when that is no directory in \<open>t\<close> and returns
  \<open>extracted_root\<close> otherwise. So \<open>extract\<close> returns only with both post-conditions true:
  it returns \<open>extracted_root\<close>, that directory exists, and nothing exists at the scratch
  location. (With the scratch location as output directory, the tree stays where it is
  and \<open>extract\<close> returns.)
\<close>

theorem relocate_check:
  "(shutil_move env (squashfs_root env) out (files w) = (None, t) \<longrightarrow>
      fst (extract_step4 env out w) =
        (if isdir t out then Inr out else Inl (MissingPrerequisite out)) \<and>
      files (snd (extract_step4 env out w)) = t \<and>
      (out \<noteq> squashfs_root env \<longrightarrow> \<not> exists t (squashfs_root env))) \<and>
   (extract_rootfs env h u m out destroy w0 = (Inr r, w') \<longrightarrow>
      r = out \<and> isdir (files w') out \<and>
      (out \<noteq> squashfs_root env \<longrightarrow> \<not> exists (files w') (squashfs_root env)))"
  using extract_step4_result [of env out w t]
    extract_rootfs_returns [of env h u m out destroy w0 r w']
  by blast

theorem relocate_check_witness:
  "(\<exists>t. shutil_move demo_env (squashfs_root demo_env) [''proj'', ''extracted_root'']
           (files (world_at resumed_fs)) = (None, t) \<and>
        isdir t [''proj'', ''extracted_root'']) \<and>
   fst (extract_step4 demo_env [''proj'', ''extracted_root''] (world_at resumed_fs)) =
     Inr [''proj'', ''extracted_root''] \<and>
   \<not> exists (files (snd (extract_step4 demo_env [''proj'', ''extracted_root'']
                          (world_at resumed_fs)))) [''tmp'', ''work'', ''squashfs-root''] \<and>
   (\<exists>t. shutil_move demo_env (squashfs_root demo_env) [''proj'', ''extracted_root'']
           (files (world_at odd_fs)) = (None, t) \<and>
        \<not> isdir t [''proj'', ''extracted_root'']) \<and>
   fst (extract_step4 demo_env [''proj'', ''extracted_root''] (world_at odd_fs)) =
     Inl (MissingPrerequisite [''proj'', ''extracted_root'']) \<and>
   fst (extract_rootfs demo_env ''H'' ''U'' ''M'' [''proj'', ''extracted_root''] False
          (world_at bare_fs)) = Inr [''proj'', ''extracted_root''] \<and>
   isdir (files (snd (extract_rootfs demo_env ''H'' ''U'' ''M'' [''proj'', ''extracted_root'']
                        False (world_at bare_fs)))) [''proj'', ''extracted_root''] \<and>
   \<not> exists (files (snd (extract_rootfs demo_env ''H'' ''U'' ''M''
                           [''proj'', ''extracted_root''] False (world_at bare_fs))))
       [''tmp'', ''work'', ''squashfs-root'']"
proof -
  let ?out = "[''proj'', ''extracted_root'']"
  let ?R = "extract_rootfs demo_env ''H'' ''U'' ''M'' ?out False (world_at bare_fs)"
  have names: "squashfs_root demo_env = [''tmp'', ''work'', ''squashfs-root'']"
    "?out \<noteq> [''tmp'', ''work'', ''squashfs-root'']"
    by (simp_all add: squashfs_root_def demo_env_def)
  have good: "\<exists>t. shutil_move demo_env (squashfs_root demo_env) ?out
                  (files (world_at resumed_fs)) = (None, t) \<and> isdir t ?out"
    by (simp add: model_defs sample_defs)
  then obtain t where t: "shutil_move demo_env (squashfs_root demo_env) ?out
                  (files (world_at resumed_fs)) = (None, t)" "isdir t ?out"
    by blast
  have one: "fst (extract_step4 demo_env ?out (world_at resumed_fs)) = Inr ?out"
    and gone: "\<not> exists (files (snd (extract_step4 demo_env ?out (world_at resumed_fs))))
                 [''tmp'', ''work'', ''squashfs-root'']"
    using relocate_check [of demo_env ?out "world_at resumed_fs" t] t names by simp_all
  have bad: "\<exists>t. shutil_move demo_env (squashfs_root demo_env) ?out
                  (files (world_at odd_fs)) = (None, t) \<and> \<not> isdir t ?out"
    by (simp add: model_defs sample_defs)
  then obtain s where s: "shutil_move demo_env (squashfs_root demo_env) ?out
                  (files (world_at odd_fs)) = (None, s)" "\<not> isdir s ?out"
    by blast
  have two: "fst (extract_step4 demo_env ?out (world_at odd_fs)) =
      Inl (MissingPrerequisite ?out)"
    using relocate_check [of demo_env ?out "world_at odd_fs" s] s by simp
  have rfst: "fst ?R = Inr ?out"
    by (simp add: model_defs sample_defs)
  then have run: "?R = (Inr ?out, snd ?R)"
    by (metis prod.collapse)
  have three: "isdir (files (snd ?R)) ?out"
    and four: "\<not> exists (files (snd ?R)) [''tmp'', ''work'', ''squashfs-root'']"
    using relocate_check [of demo_env ?out _ _ "''H''" "''U''" "''M''" False
        "world_at bare_fs" ?out "snd ?R"] run names
    by auto
  from good one gone bad two rfst three four show ?thesis by simp
qed

section \<open>Resuming in a used scratch directory\<close>

text \<open>
  C2. Step 1 is guarded by a test for the raw image and is skipped when the image is
  there; step 2 has no such guard (lines 196 to 204). In a scratch directory that already
  holds the raw image and the extracted tree, \<open>extract\<close> skips the unpack tool and still
  invokes the decompress tool (and then \<^verbatim>\<open>chown\<close>): the trace of the run holds exactly
  these two calls.
\<close>

theorem decompress_runs_on_resume:
  "isfile (files (world_at resumed_fs)) (raw_filename demo_env) \<and>
   isdir (files (world_at resumed_fs)) (squashfs_root demo_env) \<and>
   calls (snd (extract_rootfs demo_env ''H'' ''U'' ''M'' [''proj'', ''extracted_root''] False
                 (world_at resumed_fs))) =
     [(''sudo U -n /tmp/work/3.hdfbin-3-700000.raw'', [''tmp'', ''work'']),
      (''sudo chown 1000:1000 -R /tmp/work/squashfs-root'', [''tmp'', ''work''])] \<and>
   decompress_cmd demo_env ''U'' = ''sudo U -n /tmp/work/3.hdfbin-3-700000.raw''"
  by (simp add: model_defs sample_defs)

section \<open>What the callers do with a missing prerequisite\<close>

text \<open>
  C6. \<^verbatim>\<open>prereq_programs\<close> logs a \<^verbatim>\<open>MissingPrerequisite\<close> and raises it again;
  \<^verbatim>\<open>run_extraction\<close> logs it and returns \<^verbatim>\<open>None\<close>. Without the unpack tool the resolver
  raises, \<^verbatim>\<open>prereq_programs\<close> passes the error on, and \<^verbatim>\<open>run_extraction\<close> returns
  normally; with every prerequisite present and tools that produce nothing, \<open>extract\<close>
  raises for the raw image, and \<^verbatim>\<open>run_extraction\<close> returns normally again.
\<close>

theorem run_extraction_swallows:
  "fst (prereq_programs idle_env (world_at no_humidify_fs)) =
     Inl (MissingPrerequisite [''proj'', ''bin'', ''humidify-linux-i386'']) \<and>
   fst (run_extraction idle_env (world_at no_humidify_fs)) = Inr None \<and>
   fst (extract_rootfs idle_env ''/proj/original_firmware/hdpvr.hmx''
          ''/proj/firmware-mod-kit-read-only/trunk/src/squashfs-3.0/unsquashfs''
          ''/proj/bin/humidify-linux-i386'' [''proj'', ''extracted_root''] False
          (snd (prereq_programs idle_env (world_at ready_fs)))) =
     Inl (MissingPrerequisite [''tmp'', ''work'', ''3.hdfbin-3-700000.raw'']) \<and>
   fst (run_extraction idle_env (world_at ready_fs)) = Inr None"
  by (simp add: model_defs sample_defs)

section \<open>The working directory after a failed build\<close>

text \<open>
  C8. The decompress tool is absent and the checkout brings nothing. The caller is in
  \<^verbatim>\<open>/home\<close>; the loop changes into \<^verbatim>\<open>PROJECT_ROOT\<close> and runs the checkout, then
  \<^verbatim>\<open>os.chdir\<close> to the source directory raises \<^verbatim>\<open>OSError\<close>, which leaves
  \<^verbatim>\<open>prereq_unsquashfs\<close> before the line that restores the directory: the process is left
  in \<^verbatim>\<open>PROJECT_ROOT\<close>. (When the checkout does bring the source tree and the build
  produces nothing, the three commands run, the directory is restored to \<^verbatim>\<open>/home\<close> and
  \<^verbatim>\<open>MissingPrerequisite\<close> is raised.)
\<close>

theorem build_leaves_cwd_changed:
  "cwd (world_at bare_fs) = [''home''] \<and>
   fst (prereq_unsquashfs idle_env (world_at bare_fs)) =
     Inl (OSError [''proj'', ''firmware-mod-kit-read-only'', ''trunk'', ''src'']) \<and>
   cwd (snd (prereq_unsquashfs idle_env (world_at bare_fs))) = [''proj''] \<and>
   calls (snd (prereq_unsquashfs idle_env (world_at bare_fs))) =
     [(''svn checkout http://firmware-mod-kit.googlecode.com/svn/ firmware-mod-kit-read-only'',
       [''proj''])] \<and>
   fst (prereq_unsquashfs stub_env (world_at bare_fs)) =
     Inl (MissingPrerequisite
       [''proj'', ''firmware-mod-kit-read-only'', ''trunk'', ''src'', ''squashfs-3.0'',
        ''unsquashfs'']) \<and>
   cwd (snd (prereq_unsquashfs stub_env (world_at bare_fs))) = [''home'']"
  by (simp add: model_defs sample_defs)

end
